theory Spec2Isabelle
  imports Complex_Main "HOL-Library.Multiset"
begin

section \<open>Strings\<close>

text \<open>
  Python strings are modelled as \<^typ>\<open>string\<close> (lists of characters). The operations
  below are the ones the agents use: \<open>lower()\<close>, \<open>startswith\<close>, \<open>endswith\<close>,
  the substring test \<open>in\<close>, \<open>split()\<close> on whitespace, \<open>split('. ')\<close> and \<open>strip()\<close>.
  Case folding is the ASCII one: all keyword tables of the program are ASCII.
  Python floats are modelled as exact reals.
\<close>

definition lower_char :: "char \<Rightarrow> char" where
  "lower_char c =
     (case map_of (zip ''ABCDEFGHIJKLMNOPQRSTUVWXYZ'' ''abcdefghijklmnopqrstuvwxyz'') c of
        Some d \<Rightarrow> d
      | None \<Rightarrow> c)"

definition lower :: "string \<Rightarrow> string" where
  "lower s = map lower_char s"

definition startswith :: "string \<Rightarrow> string \<Rightarrow> bool" where
  "startswith s p = (take (length p) s = p)"

definition endswith :: "string \<Rightarrow> string \<Rightarrow> bool" where
  "endswith s p = (length p \<le> length s \<and> drop (length s - length p) s = p)"

text \<open>\<open>str_in sub s\<close> is Python's \<open>sub in s\<close>.\<close>

fun str_in :: "string \<Rightarrow> string \<Rightarrow> bool" where
  "str_in sub [] = (sub = [])"
| "str_in sub (c # cs) = (startswith (c # cs) sub \<or> str_in sub cs)"

definition is_space :: "char \<Rightarrow> bool" where
  "is_space c = (c \<in> set [CHR '' '', CHR 0x09, CHR 0x0A, CHR 0x0B, CHR 0x0C, CHR 0x0D,
                            CHR 0x1C, CHR 0x1D, CHR 0x1E, CHR 0x1F])"

text \<open>\<open>split_ws cur s\<close> is \<open>s.split()\<close> with the token read so far in \<open>cur\<close>.\<close>

fun split_ws :: "string \<Rightarrow> string \<Rightarrow> string list" where
  "split_ws cur [] = (if cur = [] then [] else [cur])"
| "split_ws cur (c # cs) =
     (if is_space c then (if cur = [] then split_ws [] cs else cur # split_ws [] cs)
      else split_ws (cur @ [c]) cs)"

definition strip :: "string \<Rightarrow> string" where
  "strip s = rev (dropWhile is_space (rev (dropWhile is_space s)))"

text \<open>\<open>split_sentences cur s\<close> is \<open>s.split('. ')\<close> with the piece read so far in \<open>cur\<close>.\<close>

fun split_sentences :: "string \<Rightarrow> string \<Rightarrow> string list" where
  "split_sentences cur [] = [cur]"
| "split_sentences cur [c] = [cur @ [c]]"
| "split_sentences cur (c # d # cs) =
     (if c = CHR ''.'' \<and> d = CHR '' '' then cur # split_sentences [] cs
      else split_sentences (cur @ [c]) (d # cs))"

text \<open>\<open>join sep xs\<close> is \<open>sep.join(xs)\<close>.\<close>

fun join :: "string \<Rightarrow> string list \<Rightarrow> string" where
  "join sep [] = []"
| "join sep [x] = x"
| "join sep (x # y # ys) = x @ sep @ join sep (y # ys)"

text \<open>\<open>any_in kws text\<close> is \<open>any(keyword in text for keyword in kws)\<close>.\<close>

definition any_in :: "string list \<Rightarrow> string \<Rightarrow> bool" where
  "any_in kws text = list_ex (\<lambda>keyword. str_in keyword text) kws"

text \<open>\<open>dict_get v d\<close> is \<open>dict.get(key, d)\<close> where \<open>v\<close> is the entry of the key, if any.\<close>

definition dict_get :: "'a option \<Rightarrow> 'a \<Rightarrow> 'a" where
  "dict_get v d = (case v of Some x \<Rightarrow> x | None \<Rightarrow> d)"

text \<open>\<open>str_or v d\<close> is \<open>v or d\<close> for an optional string: \<open>None\<close> and \<open>""\<close> are falsy.\<close>

definition str_or :: "string option \<Rightarrow> string \<Rightarrow> string" where
  "str_or v d = (case v of Some x \<Rightarrow> (if x = [] then d else x) | None \<Rightarrow> d)"

section \<open>Data model (backend/models/schemas.py)\<close>

datatype TicketPriority = LOW | MEDIUM | HIGH | CRITICAL

datatype TicketCategory = TECHNICAL | BILLING | GENERAL | PRODUCT | ACCOUNT

fun priority_value :: "TicketPriority \<Rightarrow> string" where
  "priority_value LOW = ''low''"
| "priority_value MEDIUM = ''medium''"
| "priority_value HIGH = ''high''"
| "priority_value CRITICAL = ''critical''"

fun category_value :: "TicketCategory \<Rightarrow> string" where
  "category_value TECHNICAL = ''technical''"
| "category_value BILLING = ''billing''"
| "category_value GENERAL = ''general''"
| "category_value PRODUCT = ''product''"
| "category_value ACCOUNT = ''account''"

text \<open>
  \<open>TicketPriority(s)\<close> and \<open>TicketCategory(s)\<close>: the enum member of that value, or a
  \<open>ValueError\<close> whose message is returned on the left.
\<close>

definition TicketPriority_of :: "string \<Rightarrow> string + TicketPriority" where
  "TicketPriority_of s =
     (if s = ''low'' then Inr LOW
      else if s = ''medium'' then Inr MEDIUM
      else if s = ''high'' then Inr HIGH
      else if s = ''critical'' then Inr CRITICAL
      else Inl ([CHR 0x27] @ s @ [CHR 0x27] @ '' is not a valid TicketPriority''))"

definition TicketCategory_of :: "string \<Rightarrow> string + TicketCategory" where
  "TicketCategory_of s =
     (if s = ''technical'' then Inr TECHNICAL
      else if s = ''billing'' then Inr BILLING
      else if s = ''general'' then Inr GENERAL
      else if s = ''product'' then Inr PRODUCT
      else if s = ''account'' then Inr ACCOUNT
      else Inl ([CHR 0x27] @ s @ [CHR 0x27] @ '' is not a valid TicketCategory''))"

text \<open>
  The fields of a ticket that the pipeline reads. (\<open>category\<close>, \<open>priority\<close>, \<open>status\<close>,
  the time stamps and the e-mail address are never read by the agents.)
\<close>

record CustomerTicket =
  ticket_id :: "string option"
  customer_id :: string
  subject :: string
  message :: string
  customer_name :: "string option"

record ClassificationResult =
  category :: TicketCategory
  priority :: TicketPriority
  confidence :: real
  reasoning :: string

text \<open>
  The constructor of \<open>ClassificationResult\<close> validates \<open>confidence\<close> against
  \<open>Field(ge=0.0, le=1.0)\<close>; the left value stands for the validation error raised
  (the library's message starts with this line).
\<close>

definition new_ClassificationResult ::
  "TicketCategory \<Rightarrow> TicketPriority \<Rightarrow> real \<Rightarrow> string \<Rightarrow> string + ClassificationResult" where
  "new_ClassificationResult cat pri conf rsn =
     (if 0 \<le> conf \<and> conf \<le> 1
      then Inr \<lparr>category = cat, priority = pri, confidence = conf, reasoning = rsn\<rparr>
      else Inl ''1 validation error for ClassificationResult'')"

record KnowledgeArticle =
  article_id :: string
  title :: string
  content :: string
  article_category :: TicketCategory
  tags :: "string list"
  resolution_count :: int
  rating :: "real option"

record SearchResult =
  article :: KnowledgeArticle
  score :: real
  relevance :: string

record EscalationDecision =
  should_escalate :: bool
  reason :: string
  escalation_type :: "string option"
  priority_level :: string
  escalation_confidence :: real

record Resolution =
  resolution_ticket_id :: string
  response :: string
  resolution_confidence :: real
  knowledge_articles_used :: "string list"
  agent_type :: string

section \<open>External collaborators\<close>

text \<open>
  The advisory of the language model for a classification is the dictionary parsed from
  its JSON answer: every key may be absent.
\<close>

record llm_classification =
  llm_category :: "string option"
  llm_priority :: "string option"
  llm_confidence :: "real option"
  llm_reasoning :: "string option"

text \<open>The advisory for an escalation, likewise.\<close>

record llm_escalation =
  llm_should_escalate :: "bool option"
  llm_reason :: "string option"
  llm_escalation_type :: "string option"
  llm_priority_level :: "string option"
  llm_escalation_confidence :: "real option"

text \<open>
  The services the agents call. A call that raises returns the exception's text on the
  left. \<open>kb_search\<close> stands for the retrieval done by \<open>search_knowledge_base\<close> before
  filtering (query preparation, \<open>embedding_service.create_query_embedding\<close>, which may
  raise, and \<open>es_service.hybrid_search\<close>); \<open>now_stamp\<close> is the reading of the clock that
  \<open>datetime.now().strftime('%Y%m%d%H%M%S')\<close> gives.
\<close>

record collaborators =
  llm_classify_ticket :: "string \<Rightarrow> string \<Rightarrow> string + llm_classification"
  llm_check_escalation :: "string \<Rightarrow> string \<Rightarrow> string \<Rightarrow> string \<Rightarrow> string + llm_escalation"
  llm_generate_resolution ::
    "string \<Rightarrow> string \<Rightarrow> string \<Rightarrow> string \<Rightarrow> (string \<times> string \<times> real) list \<Rightarrow> string + string"
  kb_search :: "CustomerTicket \<Rightarrow> ClassificationResult option \<Rightarrow> string + SearchResult list"
  now_stamp :: string

section \<open>Classifier agent (backend/agents/classifier_agent.py)\<close>

definition HIGH_PRIORITY_KEYWORDS :: "string list" where
  "HIGH_PRIORITY_KEYWORDS =
     [''urgent'', ''critical'', ''down'', ''broken'', ''error'', ''bug'',
      ''payment'', ''billing'', ''security'', ''hack'', ''breach'']"

definition security_keywords :: "string list" where
  "security_keywords = [''hack'', ''breach'', ''security'', ''fraud'', ''phishing'']"

text \<open>The dictionary returned by the rule adjustment: all four keys are present.\<close>

record classification_dict =
  cd_category :: string
  cd_priority :: string
  cd_confidence :: real
  cd_reasoning :: string

definition full_text :: "CustomerTicket \<Rightarrow> string" where
  "full_text ticket = lower (subject ticket @ '' '' @ message ticket)"

definition priority_level_of :: "string \<Rightarrow> nat" where
  "priority_level_of p =
     dict_get (map_of [(''low'', 1), (''medium'', 2), (''high'', 3), (''critical'', 4)] (lower p)) 2"

text \<open>\<open>category_priority_rules\<close>: trigger keywords and minimum priority per category.\<close>

definition category_priority_rules :: "string \<Rightarrow> (string list \<times> string) option" where
  "category_priority_rules =
     map_of [(''billing'', ([''payment'', ''charge'', ''bill'', ''invoice''], ''medium'')),
             (''technical'', ([''bug'', ''error'', ''crash'', ''broken''], ''medium''))]"

definition apply_classification_rules ::
  "CustomerTicket \<Rightarrow> llm_classification \<Rightarrow> classification_dict" where
  "apply_classification_rules ticket llm_result =
     (let category = dict_get (llm_category llm_result) ''general'';
          priority = dict_get (llm_priority llm_result) ''medium'';
          confidence = dict_get (llm_confidence llm_result) 0.5;
          reasoning = dict_get (llm_reasoning llm_result) '''';
          text = full_text ticket;
          high_priority_found =
            list_ex (\<lambda>keyword. str_in (lower keyword) text) HIGH_PRIORITY_KEYWORDS;
          (priority, confidence, reasoning) =
            (if high_priority_found \<and> priority \<in> set [''low'', ''medium'']
             then (''high'', min (confidence + 0.2) 1.0,
                   reasoning @ '' (Elevated due to urgent keywords)'')
             else (priority, confidence, reasoning));
          (priority, reasoning) =
            (case category_priority_rules category of
               Some (keywords, min_priority) \<Rightarrow>
                 (if any_in keywords text \<and>
                     priority_level_of priority < priority_level_of min_priority
                  then (min_priority, reasoning @ '' (Elevated for '' @ category @ '' category)'')
                  else (priority, reasoning))
             | None \<Rightarrow> (priority, reasoning));
          (category, priority, confidence, reasoning) =
            (if any_in security_keywords text
             then (''technical'', ''critical'', min (confidence + 0.3) 1.0,
                   reasoning @ '' (Security issue detected)'')
             else (category, priority, confidence, reasoning))
      in \<lparr>cd_category = category, cd_priority = priority,
          cd_confidence = confidence, cd_reasoning = reasoning\<rparr>)"

text \<open>The body of the \<open>try\<close> block of \<open>classify_ticket\<close>.\<close>

definition classify_ticket_try :: "collaborators \<Rightarrow> CustomerTicket \<Rightarrow> string + ClassificationResult" where
  "classify_ticket_try env ticket =
     (case llm_classify_ticket env (subject ticket) (message ticket) of
        Inl e \<Rightarrow> Inl e
      | Inr llm_result \<Rightarrow>
          (let adjusted_result = apply_classification_rules ticket llm_result in
           case TicketCategory_of (cd_category adjusted_result) of
             Inl e \<Rightarrow> Inl e
           | Inr cat \<Rightarrow>
               (case TicketPriority_of (cd_priority adjusted_result) of
                  Inl e \<Rightarrow> Inl e
                | Inr pri \<Rightarrow>
                    new_ClassificationResult cat pri
                      (cd_confidence adjusted_result) (cd_reasoning adjusted_result))))"

definition classify_ticket :: "collaborators \<Rightarrow> CustomerTicket \<Rightarrow> ClassificationResult" where
  "classify_ticket env ticket =
     (case classify_ticket_try env ticket of
        Inr classification \<Rightarrow> classification
      | Inl e \<Rightarrow>
          \<lparr>category = GENERAL, priority = MEDIUM, confidence = 0.3,
           reasoning = ''Classification failed: '' @ e\<rparr>)"

section \<open>Escalation agent (backend/agents/escalation_agent.py)\<close>

definition ESCALATION_KEYWORDS :: "string list" where
  "ESCALATION_KEYWORDS =
     [''manager'', ''supervisor'', ''complain'', ''angry'', ''frustrated'',
      ''legal'', ''lawsuit'', ''refund'', ''cancel'', ''unsubscribe'']"

definition security_legal_keywords :: "string list" where
  "security_legal_keywords =
     [''legal'', ''lawsuit'', ''lawyer'', ''attorney'', ''court'',
      ''hack'', ''breach'', ''fraud'', ''scam'', ''theft'']"

definition billing_high_value_keywords :: "string list" where
  "billing_high_value_keywords =
     [''refund'', ''cancel'', ''subscription'', ''charge'', ''payment failed'']"

definition frustration_keywords :: "string list" where
  "frustration_keywords =
     [''angry'', ''frustrated'', ''disappointed'', ''terrible'', ''worst'',
      ''unacceptable'', ''ridiculous'', ''pathetic'', ''hate'']"

definition retry_indicators :: "string list" where
  "retry_indicators =
     [''tried multiple times'', ''several attempts'', ''contacted before'',
      ''still not working'', ''again'', ''repeatedly'']"

text \<open>
  The local variables of \<open>_apply_escalation_rules\<close> that the seven rules update in turn.
\<close>

record rule_vars =
  v_should_escalate :: bool
  v_escalation_reasons :: "string list"
  v_escalation_type :: string
  v_priority_level :: string

definition rule_1 :: "ClassificationResult \<Rightarrow> rule_vars \<Rightarrow> rule_vars" where
  "rule_1 classification v =
     (if priority_value (priority classification) = ''critical''
      then v\<lparr>v_should_escalate := True,
             v_escalation_reasons := v_escalation_reasons v @ [''Critical priority ticket''],
             v_priority_level := ''urgent'',
             v_escalation_type := ''technical''\<rparr>
      else v)"

definition rule_2 :: "string \<Rightarrow> rule_vars \<Rightarrow> rule_vars" where
  "rule_2 text v =
     (if list_ex (\<lambda>keyword. str_in (lower keyword) text) ESCALATION_KEYWORDS
      then v\<lparr>v_should_escalate := True,
             v_escalation_reasons := v_escalation_reasons v @ [''Customer requesting escalation''],
             v_escalation_type := ''management''\<rparr>
      else v)"

definition rule_3 :: "string \<Rightarrow> rule_vars \<Rightarrow> rule_vars" where
  "rule_3 text v =
     (if any_in security_legal_keywords text
      then v\<lparr>v_should_escalate := True,
             v_escalation_reasons := v_escalation_reasons v @ [''Security or legal concern''],
             v_priority_level := ''urgent'',
             v_escalation_type :=
               (if any_in [''legal'', ''lawsuit'', ''lawyer''] text then ''legal'' else ''security'')\<rparr>
      else v)"

definition rule_4 :: "ClassificationResult \<Rightarrow> SearchResult list \<Rightarrow> rule_vars \<Rightarrow> rule_vars" where
  "rule_4 classification search_results v =
     (if category_value (category classification) = ''technical'' \<and>
         priority_value (priority classification) \<in> set [''high'', ''critical''] \<and>
         (case search_results of [] \<Rightarrow> True | r # _ \<Rightarrow> score r < 0.6)
      then v\<lparr>v_should_escalate := True,
             v_escalation_reasons :=
               v_escalation_reasons v @ [''Complex technical issue with no clear solution''],
             v_escalation_type := ''technical''\<rparr>
      else v)"

definition rule_5 :: "ClassificationResult \<Rightarrow> string \<Rightarrow> rule_vars \<Rightarrow> rule_vars" where
  "rule_5 classification text v =
     (if category_value (category classification) = ''billing'' \<and>
         any_in billing_high_value_keywords text
      then v\<lparr>v_should_escalate := True,
             v_escalation_reasons := v_escalation_reasons v @ [''High-impact billing issue''],
             v_escalation_type := ''billing''\<rparr>
      else v)"

definition rule_6 :: "string \<Rightarrow> rule_vars \<Rightarrow> rule_vars" where
  "rule_6 text v =
     (let frustration_count = length (filter (\<lambda>keyword. str_in keyword text) frustration_keywords)
      in if frustration_count \<ge> 2
         then v\<lparr>v_should_escalate := True,
                v_escalation_reasons :=
                  v_escalation_reasons v @ [''Customer showing high frustration''],
                v_escalation_type := ''management''\<rparr>
         else v)"

definition rule_7 :: "string \<Rightarrow> rule_vars \<Rightarrow> rule_vars" where
  "rule_7 text v =
     (if any_in retry_indicators text
      then v\<lparr>v_should_escalate := True,
             v_escalation_reasons :=
               v_escalation_reasons v @ [''Multiple failed resolution attempts'']\<rparr>
      else v)"

text \<open>
  The dictionary returned by \<open>_apply_escalation_rules\<close> and by \<open>_combine_decisions\<close>:
  both always set all five keys.
\<close>

record decision_dict =
  dd_should_escalate :: bool
  dd_reason :: string
  dd_escalation_type :: string
  dd_priority_level :: string
  dd_confidence :: real

definition rule_confidence :: "string list \<Rightarrow> real" where
  "rule_confidence escalation_reasons =
     (if length escalation_reasons > 2 then 0.9
      else if length escalation_reasons = 2 then 0.8
      else if length escalation_reasons = 1 then 0.7
      else 0.5)"

definition apply_escalation_rules ::
  "CustomerTicket \<Rightarrow> ClassificationResult \<Rightarrow> SearchResult list \<Rightarrow> decision_dict" where
  "apply_escalation_rules ticket classification search_results =
     (let text = full_text ticket;
          v = \<lparr>v_should_escalate = False, v_escalation_reasons = [],
               v_escalation_type = ''general'', v_priority_level = ''standard''\<rparr>;
          v = rule_1 classification v;
          v = rule_2 text v;
          v = rule_3 text v;
          v = rule_4 classification search_results v;
          v = rule_5 classification text v;
          v = rule_6 text v;
          v = rule_7 text v
      in \<lparr>dd_should_escalate = v_should_escalate v,
          dd_reason = (if v_escalation_reasons v \<noteq> [] then join ''; '' (v_escalation_reasons v)
                       else ''No escalation needed''),
          dd_escalation_type = v_escalation_type v,
          dd_priority_level = v_priority_level v,
          dd_confidence = rule_confidence (v_escalation_reasons v)\<rparr>)"

definition priority_levels :: "string \<Rightarrow> nat option" where
  "priority_levels = map_of [(''standard'', 1), (''urgent'', 2)]"

text \<open>
  \<open>_combine_decisions\<close>. The rule decision has every key, so \<open>rule_decision.get(k, d)\<close>
  is its field; the advisory's keys may be absent. Python's \<open>or\<close> on the escalation types
  skips an empty string as well as \<open>None\<close>.
\<close>

definition combine_decisions :: "llm_escalation \<Rightarrow> decision_dict \<Rightarrow> decision_dict" where
  "combine_decisions llm_decision rule_decision =
     (let escalate = (dict_get (llm_should_escalate llm_decision) False \<or>
                      dd_should_escalate rule_decision);
          reasons = (if str_or (llm_reason llm_decision) [] \<noteq> []
                     then [''AI: '' @ str_or (llm_reason llm_decision) []] else []);
          reasons = (if dd_reason rule_decision \<noteq> [] \<and>
                        dd_reason rule_decision \<noteq> ''No escalation needed''
                     then reasons @ [''Rules: '' @ dd_reason rule_decision] else reasons);
          etype = (if dd_escalation_type rule_decision \<noteq> [] then dd_escalation_type rule_decision
                   else str_or (llm_escalation_type llm_decision) ''general'');
          rule_priority = dd_priority_level rule_decision;
          llm_priority = dict_get (llm_priority_level llm_decision) ''standard'';
          plevel = (if dict_get (priority_levels rule_priority) 1
                        \<ge> dict_get (priority_levels llm_priority) 1
                    then rule_priority else llm_priority);
          conf = (dd_confidence rule_decision +
                  dict_get (llm_escalation_confidence llm_decision) 0.5) / 2
      in \<lparr>dd_should_escalate = escalate,
          dd_reason = (if reasons \<noteq> [] then join ''; '' reasons else ''No escalation needed''),
          dd_escalation_type = etype,
          dd_priority_level = plevel,
          dd_confidence = conf\<rparr>)"

text \<open>The body of the \<open>try\<close> block of \<open>evaluate_escalation\<close>.\<close>

definition evaluate_escalation_try ::
  "collaborators \<Rightarrow> CustomerTicket \<Rightarrow> ClassificationResult \<Rightarrow> SearchResult list
     \<Rightarrow> string + EscalationDecision" where
  "evaluate_escalation_try env ticket classification search_results =
     (case llm_check_escalation env (subject ticket) (message ticket)
             (category_value (category classification))
             (priority_value (priority classification)) of
        Inl e \<Rightarrow> Inl e
      | Inr llm_decision \<Rightarrow>
          (let rule_based_decision = apply_escalation_rules ticket classification search_results;
               final_decision = combine_decisions llm_decision rule_based_decision
           in Inr \<lparr>should_escalate = dd_should_escalate final_decision,
                   reason = dd_reason final_decision,
                   escalation_type = Some (dd_escalation_type final_decision),
                   priority_level = dd_priority_level final_decision,
                   escalation_confidence = dd_confidence final_decision\<rparr>))"

definition evaluate_escalation ::
  "collaborators \<Rightarrow> CustomerTicket \<Rightarrow> ClassificationResult \<Rightarrow> SearchResult list
     \<Rightarrow> EscalationDecision" where
  "evaluate_escalation env ticket classification search_results =
     (case evaluate_escalation_try env ticket classification search_results of
        Inr decision \<Rightarrow> decision
      | Inl e \<Rightarrow>
          \<lparr>should_escalate = True,
           reason = ''Escalation evaluation failed: '' @ e,
           escalation_type = Some ''technical'',
           priority_level = ''standard'',
           escalation_confidence = 0.3\<rparr>)"

section \<open>Knowledge agent (backend/agents/knowledge_agent.py)\<close>

definition min_relevance_score :: real where
  "min_relevance_score = 0.3"

definition calculate_enhanced_relevance :: "real \<Rightarrow> string" where
  "calculate_enhanced_relevance s =
     (if s \<ge> 0.9 then ''Excellent''
      else if s \<ge> 0.75 then ''Very High''
      else if s \<ge> 0.6 then ''High''
      else if s \<ge> 0.45 then ''Medium''
      else if s \<ge> 0.3 then ''Low''
      else ''Very Low'')"

text \<open>
  The score of one result after the three boosts of \<open>_enhance_search_results\<close>, before
  the cap. The classification is optional in the source; \<open>rating\<close> is tested for
  truthiness first, so a rating of \<open>0.0\<close> counts as absent.
\<close>

definition adjusted_score :: "ClassificationResult option \<Rightarrow> SearchResult \<Rightarrow> real" where
  "adjusted_score classification result =
     (let category_match =
            (case classification of
               None \<Rightarrow> False
             | Some c \<Rightarrow> category_value (article_category (article result))
                           = category_value (category c));
          s = score result;
          s = (if category_match then s * 1.2 else s);
          s = (if resolution_count (article result) > 0
               then s * (1 + min (real_of_int (resolution_count (article result)) / 100) 0.2)
               else s);
          s = (case rating (article result) of
                 None \<Rightarrow> s
               | Some r \<Rightarrow> if r \<noteq> 0 \<and> r > 3.0 then s * (1 + (r - 3.0) * 0.1) else s)
      in s)"

definition enhance_result :: "ClassificationResult option \<Rightarrow> SearchResult \<Rightarrow> SearchResult" where
  "enhance_result classification result =
     \<lparr>article = article result,
      score = min (adjusted_score classification result) 1.0,
      relevance = calculate_enhanced_relevance (adjusted_score classification result)\<rparr>"

text \<open>
  \<open>list.sort(key=lambda x: x.score, reverse=True)\<close> is a stable sort in descending order
  of the key: results of equal score keep their order.
\<close>

definition sort_by_score_desc :: "SearchResult list \<Rightarrow> SearchResult list" where
  "sort_by_score_desc rs = sort_key (\<lambda>x. - score x) rs"

definition enhance_search_results ::
  "SearchResult list \<Rightarrow> ClassificationResult option \<Rightarrow> SearchResult list" where
  "enhance_search_results results classification =
     sort_by_score_desc (map (enhance_result classification) results)"

definition search_knowledge_base ::
  "collaborators \<Rightarrow> CustomerTicket \<Rightarrow> ClassificationResult option \<Rightarrow> SearchResult list" where
  "search_knowledge_base env ticket classification =
     (case kb_search env ticket classification of
        Inl e \<Rightarrow> []
      | Inr results \<Rightarrow>
          (let filtered_results = filter (\<lambda>result. score result \<ge> min_relevance_score) results
           in enhance_search_results filtered_results classification))"

section \<open>Resolution agent (backend/agents/resolution_agent.py)\<close>

text \<open>
  The header and greeting line that \<open>_generate_escalation_response\<close>,
  \<open>_post_process_response\<close> and \<open>_get_fallback_response\<close> each build in the same way.
  \<open>customer_name.split()[0]\<close> raises \<open>IndexError\<close> for a name without any token.
\<close>

definition email_greeting :: "CustomerTicket \<Rightarrow> string + string" where
  "email_greeting ticket =
     (if str_or (customer_name ticket) [] \<noteq> []
      then (case split_ws [] (str_or (customer_name ticket) []) of
              [] \<Rightarrow> Inl ''list index out of range''
            | first_name # _ \<Rightarrow>
                Inr (''Subject: Re: '' @ subject ticket @ ''\<newline>\<newline>Dear '' @ first_name @ '',''))
      else Inr (''Subject: Re: '' @ subject ticket @ ''\<newline>\<newline>Dear Valued Customer,''))"

text \<open>\<open>escalation_messages\<close>: acknowledgment, action and next steps per escalation type.\<close>

definition technical_messages :: "string \<times> string \<times> string" where
  "technical_messages =
     (''I understand you're experiencing a technical issue that is impacting your operations.'',
      ''I've immediately escalated this ticket to our senior engineering team who specialize in complex technical integrations and system issues.'',
      ''A senior technical specialist will contact you within the next 15-30 minutes to begin immediate troubleshooting.'')"

definition escalation_messages :: "string \<Rightarrow> (string \<times> string \<times> string) option" where
  "escalation_messages =
     map_of
      [(''technical'', technical_messages),
       (''billing'',
         (''Thank you for contacting us about your billing concern.'',
          ''I want to ensure this is handled properly, so I'm transferring you to our billing specialists who can access your account details and process any necessary adjustments.'',
          ''A billing specialist will review your account and contact you within 30-45 minutes.'')),
       (''management'',
         (''I understand your concern and want to ensure you receive the best possible service.'',
          ''I'm connecting you with a customer success manager who can give your issue the personal attention it deserves.'',
          ''A customer success manager will contact you within 45-60 minutes to address your concerns directly.'')),
       (''legal'',
         (''Thank you for bringing this matter to our attention.'',
          ''Due to the nature of your inquiry, I'm routing this to our specialized legal affairs team who handles these types of matters.'',
          ''A member of our legal affairs team will contact you within 2-4 hours to discuss this matter properly.'')),
       (''security'',
         (''I take security concerns very seriously and understand the urgency of this situation.'',
          ''I'm immediately connecting you with our security team who can investigate and address this matter with the highest priority.'',
          ''Our security team will contact you immediately to begin the investigation process.''))]"

definition generate_escalation_response ::
  "collaborators \<Rightarrow> CustomerTicket \<Rightarrow> EscalationDecision \<Rightarrow> string + Resolution" where
  "generate_escalation_response env ticket decision =
     (let (acknowledgment, action, next_steps) =
            dict_get (case escalation_type decision of
                        None \<Rightarrow> None
                      | Some t \<Rightarrow> escalation_messages t) technical_messages
      in case email_greeting ticket of
           Inl e \<Rightarrow> Inl e
         | Inr greeting \<Rightarrow>
             (let priority_context =
                    (if priority_level decision = ''urgent''
                     then '' This has been marked as urgent and will be prioritized accordingly.''
                     else []);
                  ticket_ref = str_or (ticket_id ticket) (''TKT-'' @ now_stamp env);
                  email_body =
                    greeting @ ''\<newline>\<newline>Thank you for reaching out to us. '' @ acknowledgment
                    @ '' I sincerely apologize for any disruption this is causing.\<newline>\<newline>''
                    @ action @ priority_context @ ''\<newline>\<newline>'' @ next_steps
                    @ ''\<newline>\<newline>Your ticket reference number is: '' @ ticket_ref
                    @ ''\<newline>\<newline>If you have any immediate questions or concerns, please don't hesitate to reach out. We appreciate your patience and will ensure this matter receives the attention it deserves.''
                    @ ''\<newline>\<newline>Best regards,\<newline>Customer Support Team\<newline>Technical Support Division''
              in Inr \<lparr>resolution_ticket_id = str_or (ticket_id ticket) ''generated'',
                      response = email_body,
                      resolution_confidence = 0.9,
                      knowledge_articles_used = [],
                      agent_type = ''escalation''\<rparr>))"

definition category_confidence :: "string \<Rightarrow> real option" where
  "category_confidence =
     map_of [(''general'', 0.8), (''product'', 0.7), (''account'', 0.75),
             (''billing'', 0.6), (''technical'', 0.5)]"

definition calculate_resolution_confidence ::
  "ClassificationResult \<Rightarrow> SearchResult list \<Rightarrow> int \<Rightarrow> real" where
  "calculate_resolution_confidence classification search_results response_length =
     (let confidence_factors = [confidence classification * 0.3];
          confidence_factors =
            (if search_results \<noteq> []
             then (let avg_kb_score = sum_list (map score search_results)
                                       / real (length search_results)
                   in confidence_factors @ [avg_kb_score * 0.4])
             else confidence_factors @ [0.1]);
          completeness_score =
            (if response_length > 200 then min (real_of_int response_length / 500) 1.0 else 0.3);
          confidence_factors = confidence_factors @ [completeness_score * 0.2];
          category_factor =
            dict_get (category_confidence (category_value (category classification))) 0.6;
          confidence_factors = confidence_factors @ [category_factor * 0.1];
          final_confidence = sum_list confidence_factors
      in min (max final_confidence 0.1) 0.95)"

definition max_response_length :: nat where
  "max_response_length = 1000"

definition closing_phrases :: "string list" where
  "closing_phrases =
     [''thank you'', ''please let me know'', ''feel free to'',
      ''if you have'', ''best regards'', ''sincerely'']"

text \<open>The loop that keeps whole sentences while they fit below the length cap.\<close>

fun trim_sentences :: "string \<Rightarrow> string list \<Rightarrow> string" where
  "trim_sentences trimmed [] = trimmed"
| "trim_sentences trimmed (sentence # sentences) =
     (if length (trimmed @ sentence) < max_response_length - 3
      then trim_sentences (trimmed @ sentence @ ''. '') sentences
      else trimmed)"

definition post_process_response ::
  "collaborators \<Rightarrow> string \<Rightarrow> CustomerTicket \<Rightarrow> ClassificationResult \<Rightarrow> string + string" where
  "post_process_response env response_text ticket classification =
     (case email_greeting ticket of
        Inl e \<Rightarrow> Inl e
      | Inr email_header \<Rightarrow>
          (let r = response_text;
               r = (if \<not> list_ex (startswith (lower r)) [''dear'', ''hello'', ''hi'', ''subject:'']
                    then email_header @ ''\<newline>\<newline>Thank you for contacting us. '' @ r
                    else r);
               has_closing = any_in closing_phrases (lower r);
               r = (if \<not> has_closing
                    then r @ ''\<newline>\<newline>Please let me know if you need any additional assistance!''
                    else r);
               r = (if \<not> list_ex (endswith r) [''Best regards'', ''Sincerely'', ''Thank you'']
                    then r @ ''\<newline>\<newline>Best regards,\<newline>Customer Support Team''
                    else r);
               r = (if priority_value (priority classification) \<in> set [''high'', ''critical'']
                    then (let ticket_ref = str_or (ticket_id ticket) (''TKT-'' @ now_stamp env)
                          in if \<not> str_in ticket_ref r
                             then r @ ''\<newline>\<newline>Ticket Reference: '' @ ticket_ref
                             else r)
                    else r);
               r = (if length r > max_response_length
                    then (let sentences = split_sentences [] r;
                              trimmed = trim_sentences [] sentences;
                              r = strip trimmed
                          in if \<not> endswith r ''.'' then r @ ''...'' else r)
                    else r)
           in Inr (strip r)))"

definition get_fallback_response :: "CustomerTicket \<Rightarrow> string + string" where
  "get_fallback_response ticket =
     (case email_greeting ticket of
        Inl e \<Rightarrow> Inl e
      | Inr greeting \<Rightarrow>
          Inr (greeting
               @ ''\<newline>\<newline>Thank you for contacting us. I've received your inquiry and want to ensure you receive the best possible assistance.''
               @ ''\<newline>\<newline>Due to the specific nature of your request, I'm connecting you with one of our specialists who can provide more detailed help and ensure your concern is addressed properly.''
               @ ''\<newline>\<newline>A team member will contact you shortly to assist with your inquiry. We appreciate your patience and apologize for any inconvenience.''
               @ ''\<newline>\<newline>Best regards,\<newline>Customer Support Team''))"

text \<open>
  \<open>_generate_ai_resolution\<close>. The calls to \<open>es_service.update_article_stats\<close> catch
  every exception themselves and change only the knowledge store, so they do not appear.
\<close>

definition generate_ai_resolution ::
  "collaborators \<Rightarrow> CustomerTicket \<Rightarrow> ClassificationResult \<Rightarrow> SearchResult list
     \<Rightarrow> string + Resolution" where
  "generate_ai_resolution env ticket classification search_results =
     (let relevant_articles =
            map (\<lambda>result. (title (article result), content (article result), score result))
                (take 3 search_results);
          article_ids = map (\<lambda>result. article_id (article result)) (take 3 search_results)
      in case llm_generate_resolution env (subject ticket) (message ticket)
                (category_value (category classification))
                (priority_value (priority classification)) relevant_articles of
           Inl e \<Rightarrow> Inl e
         | Inr response_text \<Rightarrow>
             (let conf = calculate_resolution_confidence classification search_results
                           (int (length response_text))
              in case post_process_response env response_text ticket classification of
                   Inl e \<Rightarrow> Inl e
                 | Inr final_response \<Rightarrow>
                     Inr \<lparr>resolution_ticket_id = str_or (ticket_id ticket) ''generated'',
                          response = final_response,
                          resolution_confidence = conf,
                          knowledge_articles_used = article_ids,
                          agent_type = ''ai''\<rparr>))"

text \<open>
  \<open>generate_resolution\<close>: the handler builds the fallback \<open>Resolution\<close> from
  \<open>_get_fallback_response\<close>, which may raise in turn; that exception leaves the function.
\<close>

definition generate_resolution ::
  "collaborators \<Rightarrow> CustomerTicket \<Rightarrow> ClassificationResult \<Rightarrow> SearchResult list
     \<Rightarrow> EscalationDecision \<Rightarrow> string + Resolution" where
  "generate_resolution env ticket classification search_results decision =
     (case (if should_escalate decision
            then generate_escalation_response env ticket decision
            else generate_ai_resolution env ticket classification search_results) of
        Inr resolution \<Rightarrow> Inr resolution
      | Inl e \<Rightarrow>
          (case get_fallback_response ticket of
             Inl e' \<Rightarrow> Inl e'
           | Inr fallback_text \<Rightarrow>
               Inr \<lparr>resolution_ticket_id = str_or (ticket_id ticket) ''unknown'',
                    response = fallback_text,
                    resolution_confidence = 0.2,
                    knowledge_articles_used = [],
                    agent_type = ''ai_fallback''\<rparr>))"

section \<open>Workflow (backend/workflows/support_workflow.py)\<close>

text \<open>
  The state of a run. Its dictionary-valued entries start as the empty dictionary
  (\<open>None\<close> here) and are set by the nodes; the entries written only for reporting
  (\<open>insights\<close>, \<open>search_summary\<close>, \<open>routing\<close>, \<open>created_at\<close>) are computed by functions
  that do not raise and are never read again, so they are left out.
\<close>

record knowledge_entry =
  ke_article_id :: string
  ke_title :: string
  ke_content :: string
  ke_category :: TicketCategory
  ke_score :: real
  ke_relevance :: string

record workflow_metadata =
  started_at :: string
  completed_at :: "string option"
  total_errors :: "nat option"

record SupportWorkflowState =
  st_ticket :: CustomerTicket
  st_classification :: "classification_dict option"
  st_knowledge_results :: "knowledge_entry list"
  st_escalation_decision :: "EscalationDecision option"
  st_resolution :: "Resolution option"
  st_workflow_status :: string
  st_error_messages :: "string list"
  st_metadata :: workflow_metadata

text \<open>
  The conversions that the nodes repeat: the classification dictionary back to a
  \<open>ClassificationResult\<close> (a missing key raises \<open>KeyError\<close>, whose text is the quoted key),
  and the stored results back to \<open>SearchResult\<close> objects with empty tags.
\<close>

definition classification_obj :: "classification_dict option \<Rightarrow> string + ClassificationResult" where
  "classification_obj d =
     (case d of
        None \<Rightarrow> Inl ([CHR 0x27] @ ''category'' @ [CHR 0x27])
      | Some c \<Rightarrow>
          (case TicketCategory_of (cd_category c) of
             Inl e \<Rightarrow> Inl e
           | Inr cat \<Rightarrow>
               (case TicketPriority_of (cd_priority c) of
                  Inl e \<Rightarrow> Inl e
                | Inr pri \<Rightarrow> new_ClassificationResult cat pri (cd_confidence c) (cd_reasoning c))))"

definition escalation_obj :: "EscalationDecision option \<Rightarrow> string + EscalationDecision" where
  "escalation_obj d =
     (case d of
        None \<Rightarrow> Inl ([CHR 0x27] @ ''should_escalate'' @ [CHR 0x27])
      | Some decision \<Rightarrow> Inr decision)"

definition search_results_obj :: "knowledge_entry list \<Rightarrow> SearchResult list" where
  "search_results_obj knowledge_results =
     map (\<lambda>result_data.
            \<lparr>article = \<lparr>article_id = ke_article_id result_data,
                        title = ke_title result_data,
                        content = ke_content result_data,
                        article_category = ke_category result_data,
                        tags = [], resolution_count = 0, rating = None\<rparr>,
             score = ke_score result_data,
             relevance = ke_relevance result_data\<rparr>) knowledge_results"

text \<open>
  Each node is a \<open>try\<close> block and its handler. \<open>X_try\<close> is the outcome of the block
  (the exception's text on the left), \<open>X_catch\<close> the state the node returns for an outcome.
\<close>

definition classify_node_try :: "collaborators \<Rightarrow> SupportWorkflowState \<Rightarrow> string + classification_dict" where
  "classify_node_try env state =
     (let classification_result = classify_ticket env (st_ticket state)
      in Inr \<lparr>cd_category = category_value (category classification_result),
              cd_priority = priority_value (priority classification_result),
              cd_confidence = confidence classification_result,
              cd_reasoning = reasoning classification_result\<rparr>)"

definition classify_node_catch ::
  "string + classification_dict \<Rightarrow> SupportWorkflowState \<Rightarrow> SupportWorkflowState" where
  "classify_node_catch outcome state =
     (case outcome of
        Inr c \<Rightarrow> state\<lparr>st_classification := Some c, st_workflow_status := ''classified''\<rparr>
      | Inl e \<Rightarrow>
          (let error_msg = ''Classification failed: '' @ e
           in state\<lparr>st_error_messages := st_error_messages state @ [error_msg],
                    st_classification :=
                      Some \<lparr>cd_category = ''general'', cd_priority = ''medium'',
                            cd_confidence = 0.3, cd_reasoning = error_msg\<rparr>\<rparr>))"

definition classify_node :: "collaborators \<Rightarrow> SupportWorkflowState \<Rightarrow> SupportWorkflowState" where
  "classify_node env state = classify_node_catch (classify_node_try env state) state"

definition search_knowledge_node_try ::
  "collaborators \<Rightarrow> SupportWorkflowState \<Rightarrow> string + knowledge_entry list" where
  "search_knowledge_node_try env state =
     (case classification_obj (st_classification state) of
        Inl e \<Rightarrow> Inl e
      | Inr c \<Rightarrow>
          (let search_results = search_knowledge_base env (st_ticket state) (Some c)
           in Inr (map (\<lambda>result.
                          \<lparr>ke_article_id = article_id (article result),
                           ke_title = title (article result),
                           ke_content = content (article result),
                           ke_category = article_category (article result),
                           ke_score = score result,
                           ke_relevance = relevance result\<rparr>) search_results)))"

definition search_knowledge_node_catch ::
  "string + knowledge_entry list \<Rightarrow> SupportWorkflowState \<Rightarrow> SupportWorkflowState" where
  "search_knowledge_node_catch outcome state =
     (case outcome of
        Inr ks \<Rightarrow> state\<lparr>st_knowledge_results := ks, st_workflow_status := ''knowledge_searched''\<rparr>
      | Inl e \<Rightarrow>
          (let error_msg = ''Knowledge search failed: '' @ e
           in state\<lparr>st_error_messages := st_error_messages state @ [error_msg],
                    st_knowledge_results := []\<rparr>))"

definition search_knowledge_node :: "collaborators \<Rightarrow> SupportWorkflowState \<Rightarrow> SupportWorkflowState" where
  "search_knowledge_node env state =
     search_knowledge_node_catch (search_knowledge_node_try env state) state"

definition check_escalation_node_try ::
  "collaborators \<Rightarrow> SupportWorkflowState \<Rightarrow> string + EscalationDecision" where
  "check_escalation_node_try env state =
     (case classification_obj (st_classification state) of
        Inl e \<Rightarrow> Inl e
      | Inr c \<Rightarrow>
          Inr (evaluate_escalation env (st_ticket state) c
                 (search_results_obj (st_knowledge_results state))))"

definition check_escalation_node_catch ::
  "string + EscalationDecision \<Rightarrow> SupportWorkflowState \<Rightarrow> SupportWorkflowState" where
  "check_escalation_node_catch outcome state =
     (case outcome of
        Inr d \<Rightarrow> state\<lparr>st_escalation_decision := Some d,
                        st_workflow_status := ''escalation_checked''\<rparr>
      | Inl e \<Rightarrow>
          (let error_msg = ''Escalation check failed: '' @ e
           in state\<lparr>st_error_messages := st_error_messages state @ [error_msg],
                    st_escalation_decision :=
                      Some \<lparr>should_escalate = True, reason = error_msg,
                            escalation_type = Some ''technical'',
                            priority_level = ''standard'',
                            escalation_confidence = 0.3\<rparr>\<rparr>))"

definition check_escalation_node :: "collaborators \<Rightarrow> SupportWorkflowState \<Rightarrow> SupportWorkflowState" where
  "check_escalation_node env state =
     check_escalation_node_catch (check_escalation_node_try env state) state"

definition generate_resolution_node_try ::
  "collaborators \<Rightarrow> SupportWorkflowState \<Rightarrow> string + Resolution" where
  "generate_resolution_node_try env state =
     (case classification_obj (st_classification state) of
        Inl e \<Rightarrow> Inl e
      | Inr c \<Rightarrow>
          (case escalation_obj (st_escalation_decision state) of
             Inl e \<Rightarrow> Inl e
           | Inr d \<Rightarrow>
               generate_resolution env (st_ticket state) c
                 (search_results_obj (st_knowledge_results state)) d))"

definition generate_resolution_node_catch ::
  "string + Resolution \<Rightarrow> SupportWorkflowState \<Rightarrow> SupportWorkflowState" where
  "generate_resolution_node_catch outcome state =
     (case outcome of
        Inr r \<Rightarrow> state\<lparr>st_resolution := Some r, st_workflow_status := ''resolved''\<rparr>
      | Inl e \<Rightarrow>
          (let error_msg = ''Resolution generation failed: '' @ e
           in state\<lparr>st_error_messages := st_error_messages state @ [error_msg],
                    st_resolution :=
                      Some \<lparr>resolution_ticket_id = str_or (ticket_id (st_ticket state)) ''unknown'',
                            response = ''I apologize, but I'm experiencing technical difficulties. A human agent will assist you shortly.'',
                            resolution_confidence = 0.1,
                            knowledge_articles_used = [],
                            agent_type = ''fallback''\<rparr>\<rparr>))"

definition generate_resolution_node :: "collaborators \<Rightarrow> SupportWorkflowState \<Rightarrow> SupportWorkflowState" where
  "generate_resolution_node env state =
     generate_resolution_node_catch (generate_resolution_node_try env state) state"

definition escalate_ticket_node_try ::
  "collaborators \<Rightarrow> SupportWorkflowState \<Rightarrow> string + Resolution" where
  "escalate_ticket_node_try env state =
     (case escalation_obj (st_escalation_decision state) of
        Inl e \<Rightarrow> Inl e
      | Inr d \<Rightarrow>
          (case classification_obj (st_classification state) of
             Inl e \<Rightarrow> Inl e
           | Inr c \<Rightarrow> generate_escalation_response env (st_ticket state) d))"

definition escalate_ticket_node_catch ::
  "string + Resolution \<Rightarrow> SupportWorkflowState \<Rightarrow> SupportWorkflowState" where
  "escalate_ticket_node_catch outcome state =
     (case outcome of
        Inr r \<Rightarrow> state\<lparr>st_resolution := Some r, st_workflow_status := ''escalated''\<rparr>
      | Inl e \<Rightarrow>
          (let error_msg = ''Escalation failed: '' @ e
           in state\<lparr>st_error_messages := st_error_messages state @ [error_msg],
                    st_resolution :=
                      Some \<lparr>resolution_ticket_id = str_or (ticket_id (st_ticket state)) ''unknown'',
                            response = ''Your request has been escalated to our specialist team. Someone will contact you shortly.'',
                            resolution_confidence = 0.8,
                            knowledge_articles_used = [],
                            agent_type = ''escalation_fallback''\<rparr>\<rparr>))"

definition escalate_ticket_node :: "collaborators \<Rightarrow> SupportWorkflowState \<Rightarrow> SupportWorkflowState" where
  "escalate_ticket_node env state =
     escalate_ticket_node_catch (escalate_ticket_node_try env state) state"

definition finalize_node :: "SupportWorkflowState \<Rightarrow> SupportWorkflowState" where
  "finalize_node state =
     state\<lparr>st_workflow_status := ''completed'',
           st_metadata := (st_metadata state)
             \<lparr>completed_at := Some ''2024-01-01T00:00:00'',
              total_errors := Some (length (st_error_messages state))\<rparr>\<rparr>"

text \<open>\<open>_should_escalate\<close>, the condition of the edge that leaves \<open>check_escalation\<close>.\<close>

definition should_escalate_edge :: "SupportWorkflowState \<Rightarrow> string" where
  "should_escalate_edge state =
     (if (case st_escalation_decision state of None \<Rightarrow> False | Some d \<Rightarrow> should_escalate d)
      then ''escalate'' else ''resolve'')"

text \<open>
  The compiled graph run by \<open>ainvoke\<close>: the nodes in the order of the edges declared in
  \<open>_build_workflow\<close>.
\<close>

definition workflow_ainvoke :: "collaborators \<Rightarrow> SupportWorkflowState \<Rightarrow> SupportWorkflowState" where
  "workflow_ainvoke env state =
     (let s = classify_node env state;
          s = search_knowledge_node env s;
          s = check_escalation_node env s;
          s = (if should_escalate_edge s = ''escalate''
               then escalate_ticket_node env s
               else generate_resolution_node env s)
      in finalize_node s)"

text \<open>
  What \<open>process_ticket\<close> and \<open>process_batch\<close> return: the final state as a dictionary, or
  the four-key dictionary of a failed run.
\<close>

record error_resolution =
  er_response :: string
  er_confidence :: real
  er_agent_type :: string

record error_state =
  es_ticket :: CustomerTicket
  es_workflow_status :: string
  es_error_messages :: "string list"
  es_resolution :: error_resolution

datatype workflow_result = FinalState SupportWorkflowState | ErrorState error_state

fun result_ticket :: "workflow_result \<Rightarrow> CustomerTicket" where
  "result_ticket (FinalState s) = st_ticket s"
| "result_ticket (ErrorState e) = es_ticket e"

fun result_status :: "workflow_result \<Rightarrow> string" where
  "result_status (FinalState s) = st_workflow_status s"
| "result_status (ErrorState e) = es_workflow_status e"

fun result_errors :: "workflow_result \<Rightarrow> string list" where
  "result_errors (FinalState s) = st_error_messages s"
| "result_errors (ErrorState e) = es_error_messages e"

definition initial_state :: "CustomerTicket \<Rightarrow> SupportWorkflowState" where
  "initial_state ticket =
     \<lparr>st_ticket = ticket, st_classification = None, st_knowledge_results = [],
      st_escalation_decision = None, st_resolution = None,
      st_workflow_status = ''started'', st_error_messages = [],
      st_metadata = \<lparr>started_at = ''2024-01-01T00:00:00'', completed_at = None,
                     total_errors = None\<rparr>\<rparr>"

definition process_ticket_catch :: "string + SupportWorkflowState \<Rightarrow> CustomerTicket \<Rightarrow> workflow_result" where
  "process_ticket_catch outcome ticket =
     (case outcome of
        Inr final_state \<Rightarrow> FinalState final_state
      | Inl e \<Rightarrow>
          ErrorState
            \<lparr>es_ticket = ticket, es_workflow_status = ''failed'',
             es_error_messages = [''Workflow execution failed: '' @ e],
             es_resolution =
               \<lparr>er_response = ''I apologize for the technical difficulty. Please contact our support team directly.'',
                er_confidence = 0.1, er_agent_type = ''error_fallback''\<rparr>\<rparr>)"

definition process_ticket :: "collaborators \<Rightarrow> CustomerTicket \<Rightarrow> workflow_result" where
  "process_ticket env ticket =
     process_ticket_catch (Inr (workflow_ainvoke env (initial_state ticket))) ticket"

text \<open>
  \<open>process_batch\<close>. \<open>asyncio.gather(..., return_exceptions=True)\<close> gives, in the order of
  the tickets, the value each coroutine returned or the exception it raised; the loop
  then replaces each exception. \<open>collect_results\<close> is that loop over \<open>enumerate(results)\<close>.
  Run \<open>i\<close> sees the collaborators as \<open>envs i\<close>: the runs share no state of the workflow.
\<close>

definition batch_error :: "CustomerTicket \<Rightarrow> string \<Rightarrow> workflow_result" where
  "batch_error ticket e =
     ErrorState
       \<lparr>es_ticket = ticket, es_workflow_status = ''failed'', es_error_messages = [e],
        es_resolution =
          \<lparr>er_response = ''Processing failed due to technical error.'',
           er_confidence = 0.1, er_agent_type = ''batch_error''\<rparr>\<rparr>"

definition collect_results ::
  "CustomerTicket list \<Rightarrow> (string + workflow_result) list \<Rightarrow> workflow_result list" where
  "collect_results tickets results =
     map (\<lambda>(i, result). case result of
                           Inl e \<Rightarrow> batch_error (tickets ! i) e
                         | Inr r \<Rightarrow> r)
         (enumerate 0 results)"

definition gather_runs ::
  "(nat \<Rightarrow> CustomerTicket \<Rightarrow> string + workflow_result) \<Rightarrow> CustomerTicket list
     \<Rightarrow> (string + workflow_result) list" where
  "gather_runs run tickets = map (\<lambda>(i, ticket). run i ticket) (enumerate 0 tickets)"

definition process_batch_with ::
  "(nat \<Rightarrow> CustomerTicket \<Rightarrow> string + workflow_result) \<Rightarrow> CustomerTicket list
     \<Rightarrow> workflow_result list" where
  "process_batch_with run tickets = collect_results tickets (gather_runs run tickets)"

definition process_batch :: "(nat \<Rightarrow> collaborators) \<Rightarrow> CustomerTicket list \<Rightarrow> workflow_result list" where
  "process_batch envs tickets =
     process_batch_with (\<lambda>i ticket. Inr (process_ticket (envs i) ticket)) tickets"

section \<open>Predicates and sample inputs used in the statements\<close>

text \<open>
  A dictionary that the constructors \<open>TicketCategory\<close>, \<open>TicketPriority\<close> and
  \<open>ClassificationResult\<close> accept: the category and the priority are values of the two
  enums and the confidence satisfies the bounds of the field.
\<close>

definition valid_classification_dict :: "classification_dict \<Rightarrow> bool" where
  "valid_classification_dict d =
     (cd_category d \<in> set [''technical'', ''billing'', ''general'', ''product'', ''account''] \<and>
      cd_priority d \<in> set [''low'', ''medium'', ''high'', ''critical''] \<and>
      0 \<le> cd_confidence d \<and> cd_confidence d \<le> 1)"

text \<open>
  The invariant of the rule variables: the escalation type is never empty, and it is
  still \<open>general\<close> as long as no rule has fired.
\<close>

definition rule_inv :: "rule_vars \<Rightarrow> bool" where
  "rule_inv v =
     (v_escalation_type v \<noteq> [] \<and>
      (\<not> v_should_escalate v \<longrightarrow> v_escalation_type v = ''general''))"

text \<open>Collaborators that are all down, and collaborators that answer a routine question.\<close>

definition failing_collaborators :: collaborators where
  "failing_collaborators =
     \<lparr>llm_classify_ticket = (\<lambda>s m. Inl ''Error generating response: timeout''),
      llm_check_escalation = (\<lambda>s m c p. Inl ''Error generating response: timeout''),
      llm_generate_resolution = (\<lambda>s m c p arts. Inl ''Error generating response: timeout''),
      kb_search = (\<lambda>t c. Inl ''Error generating embedding: timeout''),
      now_stamp = ''20240101000000''\<rparr>"

definition routine_collaborators :: collaborators where
  "routine_collaborators =
     \<lparr>llm_classify_ticket =
        (\<lambda>s m. Inr \<lparr>llm_category = Some ''account'', llm_priority = Some ''low'',
                     llm_confidence = Some 0.8, llm_reasoning = Some ''login question''\<rparr>),
      llm_check_escalation =
        (\<lambda>s m c p. Inr \<lparr>llm_should_escalate = Some False, llm_reason = Some ''routine'',
                         llm_escalation_type = None, llm_priority_level = Some ''standard'',
                         llm_escalation_confidence = Some 0.9\<rparr>),
      llm_generate_resolution = (\<lambda>s m c p arts. Inr ''We have reset your password.''),
      kb_search = (\<lambda>t c. Inr []),
      now_stamp = ''20240101000000''\<rparr>"

definition login_ticket :: CustomerTicket where
  "login_ticket =
     \<lparr>ticket_id = Some ''T1'', customer_id = ''c1'', subject = ''Login'',
      message = ''I cannot log in'', customer_name = None\<rparr>"

definition blank_name_ticket :: CustomerTicket where
  "blank_name_ticket =
     \<lparr>ticket_id = Some ''T1'', customer_id = ''c1'', subject = ''Login'',
      message = ''I cannot log in'', customer_name = Some '' ''\<rparr>"



definition account_low :: ClassificationResult where
  "account_low = \<lparr>category = ACCOUNT, priority = LOW, confidence = 0.8, reasoning = ''r''\<rparr>"

definition overconfident_advisory :: llm_escalation where
  "overconfident_advisory =
     \<lparr>llm_should_escalate = Some False, llm_reason = Some ''routine'',
      llm_escalation_type = None, llm_priority_level = Some ''standard'',
      llm_escalation_confidence = Some 2\<rparr>"

definition billing_escalation_advisory :: llm_escalation where
  "billing_escalation_advisory =
     \<lparr>llm_should_escalate = Some True, llm_reason = Some ''customer asks for a person'',
      llm_escalation_type = Some ''billing'', llm_priority_level = Some ''standard'',
      llm_escalation_confidence = Some 0.9\<rparr>"

definition sample_article :: "TicketCategory \<Rightarrow> int \<Rightarrow> real option \<Rightarrow> KnowledgeArticle" where
  "sample_article cat n r =
     \<lparr>article_id = ''kb-1'', title = ''Resetting a password'', content = ''Open the settings page.'',
      article_category = cat, tags = [], resolution_count = n, rating = r\<rparr>"

section \<open>The classifier\<close>



lemma classification_obj_valid:
  "(\<exists>c. classification_obj (Some d) = Inr c) = valid_classification_dict d"
  by (auto simp: classification_obj_def valid_classification_dict_def TicketCategory_of_def
        TicketPriority_of_def new_ClassificationResult_def split: sum.splits if_splits)

lemma classify_ticket_try_eq:
  "classify_ticket_try env t =
     (case llm_classify_ticket env (subject t) (message t) of
        Inl e \<Rightarrow> Inl e
      | Inr r \<Rightarrow> classification_obj (Some (apply_classification_rules t r)))"
  by (simp add: classify_ticket_try_def classification_obj_def Let_def split: sum.splits)

text \<open>
  Claim C9. \<open>classify_ticket\<close> returns a classification for every ticket. Whenever the
  advisory call raises, or the adjusted dictionary is not accepted by the constructors of
  \<open>ClassificationResult\<close>, the \<open>try\<close> block ends in an exception with some text \<open>e\<close> and
  the result is category \<open>general\<close>, priority \<open>medium\<close>, confidence \<open>0.3\<close>, with the
  reasoning \<open>Classification failed: e\<close>.
\<close>

theorem classify_fallback:
  assumes "(\<exists>e. llm_classify_ticket env (subject t) (message t) = Inl e) \<or>
           (\<exists>r. llm_classify_ticket env (subject t) (message t) = Inr r \<and>
                \<not> valid_classification_dict (apply_classification_rules t r))"
  shows "category (classify_ticket env t) = GENERAL \<and>
         priority (classify_ticket env t) = MEDIUM \<and>
         confidence (classify_ticket env t) = 0.3 \<and>
         (\<exists>e. classify_ticket_try env t = Inl e \<and>
              reasoning (classify_ticket env t) = ''Classification failed: '' @ e)"
proof -
  have "\<exists>e. classify_ticket_try env t = Inl e"
    using assms
  proof
    assume "\<exists>e. llm_classify_ticket env (subject t) (message t) = Inl e"
    then show ?thesis by (auto simp: classify_ticket_try_eq)
  next
    assume "\<exists>r. llm_classify_ticket env (subject t) (message t) = Inr r \<and>
                \<not> valid_classification_dict (apply_classification_rules t r)"
    then obtain r where r: "llm_classify_ticket env (subject t) (message t) = Inr r"
      and nv: "\<not> valid_classification_dict (apply_classification_rules t r)" by blast
    from nv have "\<not> (\<exists>c. classification_obj (Some (apply_classification_rules t r)) = Inr c)"
      by (simp add: classification_obj_valid)
    then obtain e where "classification_obj (Some (apply_classification_rules t r)) = Inl e"
      by (cases "classification_obj (Some (apply_classification_rules t r))") auto
    then show ?thesis using r by (simp add: classify_ticket_try_eq)
  qed
  then obtain e where "classify_ticket_try env t = Inl e" ..
  then show ?thesis by (simp add: classify_ticket_def)
qed

theorem classify_fallback_witness:
  "llm_classify_ticket failing_collaborators (subject login_ticket) (message login_ticket)
     = Inl ''Error generating response: timeout''
   \<and> category (classify_ticket failing_collaborators login_ticket) = GENERAL
   \<and> priority (classify_ticket failing_collaborators login_ticket) = MEDIUM
   \<and> confidence (classify_ticket failing_collaborators login_ticket) = 0.3
   \<and> reasoning (classify_ticket failing_collaborators login_ticket)
       = ''Classification failed: Error generating response: timeout''"
proof -
  have h: "llm_classify_ticket failing_collaborators (subject login_ticket) (message login_ticket)
             = Inl ''Error generating response: timeout''"
    by (simp add: failing_collaborators_def)
  then have "(\<exists>e. llm_classify_ticket failing_collaborators (subject login_ticket)
                    (message login_ticket) = Inl e) \<or>
             (\<exists>r. llm_classify_ticket failing_collaborators (subject login_ticket)
                    (message login_ticket) = Inr r \<and>
                  \<not> valid_classification_dict (apply_classification_rules login_ticket r))"
    by blast
  from classify_fallback [OF this] h show ?thesis
    by (auto simp: classify_ticket_try_eq)
qed

section \<open>The escalation engine\<close>

text \<open>
  Claim C4. The combined decision escalates exactly when the advisory (default: no) or
  the rule decision does. In particular an advisory that escalates forces escalation
  whatever the rules say, and \<open>evaluate_escalation\<close> returns that disjunction for the
  rule decision of the ticket whenever the advisory call returns.
\<close>

theorem combined_should_escalate_or:
  "dd_should_escalate (combine_decisions llm_decision rule_decision)
     = (dict_get (llm_should_escalate llm_decision) False \<or> dd_should_escalate rule_decision)
   \<and> (llm_should_escalate llm_decision = Some True
        \<longrightarrow> dd_should_escalate (combine_decisions llm_decision rule_decision))
   \<and> (llm_check_escalation env (subject t) (message t) (category_value (category c))
          (priority_value (priority c)) = Inr llm_decision
        \<longrightarrow> should_escalate (evaluate_escalation env t c rs)
            = (dict_get (llm_should_escalate llm_decision) False
               \<or> dd_should_escalate (apply_escalation_rules t c rs)))"
  by (simp add: combine_decisions_def Let_def dict_get_def evaluate_escalation_def
        evaluate_escalation_try_def)

lemma login_no_rule_fires:
  "\<not> dd_should_escalate (apply_escalation_rules login_ticket account_low [])"
  by code_simp

theorem combined_should_escalate_or_witness:
  "llm_should_escalate billing_escalation_advisory = Some True
   \<and> llm_check_escalation
        (routine_collaborators\<lparr>llm_check_escalation := \<lambda>s m c p. Inr billing_escalation_advisory\<rparr>)
        (subject login_ticket) (message login_ticket)
        (category_value (category account_low)) (priority_value (priority account_low))
       = Inr billing_escalation_advisory
   \<and> \<not> dd_should_escalate (apply_escalation_rules login_ticket account_low [])
   \<and> dd_should_escalate (combine_decisions billing_escalation_advisory
        (apply_escalation_rules login_ticket account_low []))
   \<and> should_escalate (evaluate_escalation
        (routine_collaborators\<lparr>llm_check_escalation := \<lambda>s m c p. Inr billing_escalation_advisory\<rparr>)
        login_ticket account_low [])"
proof -
  have a: "llm_should_escalate billing_escalation_advisory = Some True"
    by (simp add: billing_escalation_advisory_def)
  have b: "llm_check_escalation
        (routine_collaborators\<lparr>llm_check_escalation := \<lambda>s m c p. Inr billing_escalation_advisory\<rparr>)
        (subject login_ticket) (message login_ticket)
        (category_value (category account_low)) (priority_value (priority account_low))
       = Inr billing_escalation_advisory"
    by simp
  show ?thesis
    using combined_should_escalate_or
            [of billing_escalation_advisory "apply_escalation_rules login_ticket account_low []"
                "routine_collaborators\<lparr>llm_check_escalation := \<lambda>s m c p. Inr billing_escalation_advisory\<rparr>"
                login_ticket account_low "[]"]
          a b login_no_rule_fires
    by (simp add: dict_get_def)
qed

lemma rule_confidence_values: "rule_confidence xs \<in> {0.5, 0.7, 0.8, 0.9}"
  by (simp add: rule_confidence_def)

lemma apply_escalation_rules_confidence:
  "dd_confidence (apply_escalation_rules t c rs) \<in> {0.5, 0.7, 0.8, 0.9}"
  using rule_confidence_values by (simp add: apply_escalation_rules_def Let_def)

text \<open>
  Claim C7, as amended. The combined confidence is the arithmetic mean of the rule
  confidence and the advisory confidence (default \<open>0.5\<close> when absent). It lies in
  \<open>[0, 1]\<close> whenever the advisory confidence (or its default) does: the rule engine's
  own confidence is one of \<open>0.5, 0.7, 0.8, 0.9\<close>, but the advisory's is taken as it comes.
\<close>

theorem combined_confidence_mean:
  "dd_confidence (combine_decisions llm_decision rule_decision)
     = (dd_confidence rule_decision + dict_get (llm_escalation_confidence llm_decision) 0.5) / 2
   \<and> (0 \<le> dict_get (llm_escalation_confidence llm_decision) 0.5
        \<and> dict_get (llm_escalation_confidence llm_decision) 0.5 \<le> 1
      \<longrightarrow> 0 \<le> dd_confidence (combine_decisions llm_decision (apply_escalation_rules t c rs))
        \<and> dd_confidence (combine_decisions llm_decision (apply_escalation_rules t c rs)) \<le> 1)"
proof -
  have m: "\<And>r. dd_confidence (combine_decisions llm_decision r)
     = (dd_confidence r + dict_get (llm_escalation_confidence llm_decision) 0.5) / 2"
    by (simp add: combine_decisions_def Let_def)
  have "dd_confidence (apply_escalation_rules t c rs) \<in> {0.5, 0.7, 0.8, 0.9}"
    by (rule apply_escalation_rules_confidence)
  then have "0 \<le> dd_confidence (apply_escalation_rules t c rs) \<and>
             dd_confidence (apply_escalation_rules t c rs) \<le> 1" by auto
  then show ?thesis unfolding m by auto
qed

theorem combined_confidence_mean_witness:
  "0 \<le> dict_get (llm_escalation_confidence billing_escalation_advisory) 0.5
   \<and> dict_get (llm_escalation_confidence billing_escalation_advisory) 0.5 \<le> 1
   \<and> 0 \<le> dd_confidence (combine_decisions billing_escalation_advisory
              (apply_escalation_rules login_ticket account_low []))
   \<and> dd_confidence (combine_decisions billing_escalation_advisory
              (apply_escalation_rules login_ticket account_low [])) \<le> 1"
proof -
  have h: "0 \<le> dict_get (llm_escalation_confidence billing_escalation_advisory) 0.5
         \<and> dict_get (llm_escalation_confidence billing_escalation_advisory) 0.5 \<le> 1"
    by (simp add: billing_escalation_advisory_def dict_get_def)
  show ?thesis
    using combined_confidence_mean
            [of billing_escalation_advisory "apply_escalation_rules login_ticket account_low []"
                login_ticket account_low "[]"] h
    by blast
qed

lemma login_rule_confidence:
  "dd_confidence (apply_escalation_rules login_ticket account_low []) = 0.5"
proof -
  have "v_escalation_reasons
          (rule_7 (full_text login_ticket) (rule_6 (full_text login_ticket)
            (rule_5 account_low (full_text login_ticket) (rule_4 account_low []
              (rule_3 (full_text login_ticket) (rule_2 (full_text login_ticket)
                (rule_1 account_low
                   \<lparr>v_should_escalate = False, v_escalation_reasons = [],
                    v_escalation_type = ''general'', v_priority_level = ''standard''\<rparr>))))))) = []"
    by code_simp
  then show ?thesis
    by (simp add: apply_escalation_rules_def Let_def rule_confidence_def)
qed

text \<open>
  An advisory confidence of \<open>2\<close> on a ticket for which no rule fires (rule confidence
  \<open>0.5\<close>) gives the combined confidence \<open>1.25\<close>.
\<close>

theorem combined_confidence_out_of_range:
  "\<not> dd_confidence (combine_decisions overconfident_advisory
        (apply_escalation_rules login_ticket account_low [])) \<le> 1"
  by (simp add: combine_decisions_def Let_def login_rule_confidence overconfident_advisory_def
        dict_get_def)

lemma rule_1_inv: "rule_inv v \<Longrightarrow> rule_inv (rule_1 c v)"
  by (simp add: rule_inv_def rule_1_def)

lemma rule_2_inv: "rule_inv v \<Longrightarrow> rule_inv (rule_2 t v)"
  by (simp add: rule_inv_def rule_2_def)

lemma rule_3_inv: "rule_inv v \<Longrightarrow> rule_inv (rule_3 t v)"
  by (simp add: rule_inv_def rule_3_def)

lemma rule_4_inv: "rule_inv v \<Longrightarrow> rule_inv (rule_4 c rs v)"
  by (simp add: rule_inv_def rule_4_def)

lemma rule_5_inv: "rule_inv v \<Longrightarrow> rule_inv (rule_5 c t v)"
  by (simp add: rule_inv_def rule_5_def)

lemma rule_6_inv: "rule_inv v \<Longrightarrow> rule_inv (rule_6 t v)"
  by (simp add: rule_inv_def rule_6_def Let_def)

lemma rule_7_inv: "rule_inv v \<Longrightarrow> rule_inv (rule_7 t v)"
  by (simp add: rule_inv_def rule_7_def)

lemma apply_escalation_rules_type:
  "dd_escalation_type (apply_escalation_rules t c rs) \<noteq> [] \<and>
   (\<not> dd_should_escalate (apply_escalation_rules t c rs)
      \<longrightarrow> dd_escalation_type (apply_escalation_rules t c rs) = ''general'')"
proof -
  have "rule_inv \<lparr>v_should_escalate = False, v_escalation_reasons = [],
               v_escalation_type = ''general'', v_priority_level = ''standard''\<rparr>"
    by (simp add: rule_inv_def)
  then have "rule_inv (rule_7 (full_text t) (rule_6 (full_text t) (rule_5 c (full_text t)
      (rule_4 c rs (rule_3 (full_text t) (rule_2 (full_text t) (rule_1 c
        \<lparr>v_should_escalate = False, v_escalation_reasons = [],
               v_escalation_type = ''general'', v_priority_level = ''standard''\<rparr>)))))))"
    by (intro rule_7_inv rule_6_inv rule_5_inv rule_4_inv rule_3_inv rule_2_inv rule_1_inv)
  then show ?thesis
    by (simp add: apply_escalation_rules_def Let_def rule_inv_def)
qed

text \<open>
  Claim C10. The escalation type of the advisory never reaches the combined decision:
  two advisories that differ only in that field give the same combined decision for the
  rule decision of any ticket, classification and candidate list, because the rule
  decision always carries a non-empty type, which the combination takes. When no rule
  fires, that type is \<open>general\<close>, whatever type the advisory names.
\<close>

theorem advisory_type_ignored:
  "combine_decisions (llm_decision\<lparr>llm_escalation_type := a\<rparr>) (apply_escalation_rules t c rs)
     = combine_decisions (llm_decision\<lparr>llm_escalation_type := b\<rparr>) (apply_escalation_rules t c rs)
   \<and> dd_escalation_type (combine_decisions llm_decision (apply_escalation_rules t c rs))
       = dd_escalation_type (apply_escalation_rules t c rs)
   \<and> (\<not> dd_should_escalate (apply_escalation_rules t c rs)
        \<longrightarrow> dd_escalation_type (combine_decisions llm_decision (apply_escalation_rules t c rs))
            = ''general'')"
proof -
  have ne: "dd_escalation_type (apply_escalation_rules t c rs) \<noteq> []"
    using apply_escalation_rules_type by blast
  have 1: "combine_decisions (llm_decision\<lparr>llm_escalation_type := a\<rparr>) (apply_escalation_rules t c rs)
     = combine_decisions (llm_decision\<lparr>llm_escalation_type := b\<rparr>) (apply_escalation_rules t c rs)"
    using ne by (simp add: combine_decisions_def Let_def)
  have 2: "dd_escalation_type (combine_decisions llm_decision (apply_escalation_rules t c rs))
       = dd_escalation_type (apply_escalation_rules t c rs)"
    using ne by (simp add: combine_decisions_def Let_def)
  show ?thesis using 1 2 apply_escalation_rules_type by simp
qed

theorem advisory_type_ignored_witness:
  "\<not> dd_should_escalate (apply_escalation_rules login_ticket account_low [])
   \<and> llm_escalation_type billing_escalation_advisory = Some ''billing''
   \<and> dd_should_escalate (combine_decisions billing_escalation_advisory
        (apply_escalation_rules login_ticket account_low []))
   \<and> dd_escalation_type (combine_decisions billing_escalation_advisory
        (apply_escalation_rules login_ticket account_low [])) = ''general''"
proof -
  have e: "dd_should_escalate (combine_decisions billing_escalation_advisory
        (apply_escalation_rules login_ticket account_low []))"
    by (simp add: combine_decisions_def Let_def billing_escalation_advisory_def dict_get_def)
  have ty: "llm_escalation_type billing_escalation_advisory = Some ''billing''"
    by (simp add: billing_escalation_advisory_def)
  show ?thesis
    using advisory_type_ignored
            [where llm_decision = billing_escalation_advisory and a = "Some ''billing''"
               and b = "Some ''billing''" and t = login_ticket and c = account_low and rs = "[]"]
          login_no_rule_fires e ty
    by blast
qed

section \<open>The resolution confidence\<close>

lemma category_factor_eq:
  "dict_get (category_confidence (category_value (category c))) 0.6
     = (case category c of GENERAL \<Rightarrow> 0.8 | PRODUCT \<Rightarrow> 0.7 | ACCOUNT \<Rightarrow> 0.75
                         | BILLING \<Rightarrow> 0.6 | TECHNICAL \<Rightarrow> 0.5)"
  by (cases "category c") (simp_all add: category_confidence_def dict_get_def)

lemma clamp_range: "0.1 \<le> min (max (x::real) 0.1) 0.95 \<and> min (max x 0.1) 0.95 \<le> 0.95"
  by (simp add: min_def max_def)

text \<open>
  Claim C3, as amended. The confidence of the AI path is
  \<open>0.3 \<times> classification confidence + K + 0.2 \<times> completeness + 0.1 \<times> base rate\<close>,
  clamped to \<open>[0.1, 0.95]\<close>, where the knowledge term \<open>K\<close> is \<open>0.4 \<times>\<close> the mean of all
  candidate scores when there are candidates and the constant \<open>0.1\<close> (not weighted by
  \<open>0.4\<close>) when there are none; completeness is \<open>min (length / 500) 1\<close> for a length above
  \<open>200\<close> and \<open>0.3\<close> otherwise; the base rates are general \<open>0.8\<close>, product \<open>0.7\<close>, account
  \<open>0.75\<close>, billing \<open>0.6\<close>, technical \<open>0.5\<close>. The result is always in \<open>[0.1, 0.95]\<close>.
\<close>

theorem resolution_confidence_formula:
  "calculate_resolution_confidence c rs n
     = min (max (0.3 * confidence c
                 + (if rs = [] then 0.1 else 0.4 * (sum_list (map score rs) / real (length rs)))
                 + 0.2 * (if n > 200 then min (real_of_int n / 500) 1 else 0.3)
                 + 0.1 * (case category c of GENERAL \<Rightarrow> 0.8 | PRODUCT \<Rightarrow> 0.7 | ACCOUNT \<Rightarrow> 0.75
                                           | BILLING \<Rightarrow> 0.6 | TECHNICAL \<Rightarrow> 0.5)) 0.1) 0.95
   \<and> 0.1 \<le> calculate_resolution_confidence c rs n
   \<and> calculate_resolution_confidence c rs n \<le> 0.95"
proof -
  have range: "0.1 \<le> calculate_resolution_confidence c rs n
             \<and> calculate_resolution_confidence c rs n \<le> 0.95"
    unfolding calculate_resolution_confidence_def Let_def by (rule clamp_range)
  have eq: "calculate_resolution_confidence c rs n
     = min (max (0.3 * confidence c
                 + (if rs = [] then 0.1 else 0.4 * (sum_list (map score rs) / real (length rs)))
                 + 0.2 * (if n > 200 then min (real_of_int n / 500) 1 else 0.3)
                 + 0.1 * (case category c of GENERAL \<Rightarrow> 0.8 | PRODUCT \<Rightarrow> 0.7 | ACCOUNT \<Rightarrow> 0.75
                                           | BILLING \<Rightarrow> 0.6 | TECHNICAL \<Rightarrow> 0.5)) 0.1) 0.95"
    unfolding calculate_resolution_confidence_def Let_def category_factor_eq
    by (rule arg_cong [where f = "\<lambda>x. min (max x 0.1) 0.95"]) (simp add: algebra_simps)
  from eq range show ?thesis by blast
qed

theorem resolution_confidence_formula_witness:
  "calculate_resolution_confidence
      \<lparr>category = TECHNICAL, priority = HIGH, confidence = 1, reasoning = ''r''\<rparr>
      [\<lparr>article = sample_article TECHNICAL 0 None, score = 1, relevance = ''Excellent''\<rparr>] 5000
     = 0.95"
  using resolution_confidence_formula
          [of "\<lparr>category = TECHNICAL, priority = HIGH, confidence = 1, reasoning = ''r''\<rparr>"
              "[\<lparr>article = sample_article TECHNICAL 0 None, score = 1, relevance = ''Excellent''\<rparr>]"
              5000]
  by simp

text \<open>
  With no candidates, classification confidence \<open>0.5\<close>, category general and an empty
  response the function returns \<open>0.39\<close>; weighting the constant \<open>0.1\<close> by \<open>0.4\<close> would
  give \<open>0.33\<close>.
\<close>

theorem resolution_confidence_empty_counterexample:
  "calculate_resolution_confidence
      \<lparr>category = GENERAL, priority = MEDIUM, confidence = 0.5, reasoning = ''r''\<rparr> [] 0
    \<noteq> min (max (0.3 * 0.5 + 0.4 * 0.1 + 0.2 * 0.3 + 0.1 * 0.8) 0.1) 0.95"
  by (simp add: calculate_resolution_confidence_def Let_def category_confidence_def dict_get_def)

section \<open>The knowledge ranker\<close>

lemma adjusted_score_eq:
  "adjusted_score (Some c) r =
     score r
       * (if article_category (article r) = category c then 1.2 else 1)
       * (if resolution_count (article r) > 0
          then 1 + min (real_of_int (resolution_count (article r)) / 100) 0.2 else 1)
       * (case rating (article r) of
            None \<Rightarrow> 1
          | Some x \<Rightarrow> if x > 3.0 then 1 + (x - 3.0) * 0.1 else 1)"
proof -
  have inj: "(category_value (article_category (article r)) = category_value (category c))
      = (article_category (article r) = category c)"
    by (cases "article_category (article r)"; cases "category c") simp_all
  show ?thesis
    by (auto simp: adjusted_score_def Let_def inj split: option.splits)
qed

lemma sort_by_score_desc_sorted:
  "sorted_wrt (\<lambda>x y. score x \<ge> score y) (sort_by_score_desc rs)"
proof -
  have "sorted (map (\<lambda>x. - score x) (sort_key (\<lambda>x. - score x) rs))"
    by (rule sorted_sort_key)
  then show ?thesis by (simp add: sort_by_score_desc_def sorted_map)
qed

lemma sort_by_score_desc_mset: "mset (sort_by_score_desc rs) = mset rs"
  by (simp add: sort_by_score_desc_def)

lemma boosted_beats_plain:
  assumes "cat' \<noteq> category c"
  shows "score (enhance_result (Some c)
            \<lparr>article = a\<lparr>article_category := category c, resolution_count := 200,
                         rating := Some 5\<rparr>, score = 0.5, relevance = l\<rparr>)
       > score (enhance_result (Some c)
            \<lparr>article = a\<lparr>article_category := cat', resolution_count := 0,
                         rating := None\<rparr>, score = 0.5, relevance = l\<rparr>)"
  using assms by (simp add: enhance_result_def adjusted_score_eq)

text \<open>
  Claim C8. \<open>search_knowledge_base\<close> keeps the candidates whose raw score is at least
  \<open>0.3\<close> and re-scores each of them: the raw score times \<open>1.2\<close> when the article category
  is the classification's, times \<open>1 + min (popularity / 100) 0.2\<close> when the popularity is
  positive, times \<open>1 + (rating - 3) \<times> 0.1\<close> when a rating above \<open>3\<close> is present,
  capped at \<open>1\<close>. The result is the list of re-scored candidates in descending order of
  score. A candidate with popularity \<open>200\<close>, rating \<open>5\<close>, matching category and raw score
  \<open>0.5\<close> scores strictly higher than the same candidate with popularity \<open>0\<close>, no rating
  and another category.
\<close>

theorem knowledge_rescoring:
  "(kb_search env t (Some c) = Inr results \<longrightarrow>
      search_knowledge_base env t (Some c)
        = enhance_search_results (filter (\<lambda>r. score r \<ge> 0.3) results) (Some c))
   \<and> score (enhance_result (Some c) r)
       = min (score r
               * (if article_category (article r) = category c then 1.2 else 1)
               * (if resolution_count (article r) > 0
                  then 1 + min (real_of_int (resolution_count (article r)) / 100) 0.2 else 1)
               * (case rating (article r) of
                    None \<Rightarrow> 1
                  | Some x \<Rightarrow> if x > 3.0 then 1 + (x - 3.0) * 0.1 else 1)) 1
   \<and> mset (enhance_search_results rs (Some c)) = mset (map (enhance_result (Some c)) rs)
   \<and> sorted_wrt (\<lambda>x y. score x \<ge> score y) (enhance_search_results rs (Some c))
   \<and> (cat' \<noteq> category c \<longrightarrow>
        score (enhance_result (Some c)
            \<lparr>article = a\<lparr>article_category := category c, resolution_count := 200,
                         rating := Some 5\<rparr>, score = 0.5, relevance = l\<rparr>)
       > score (enhance_result (Some c)
            \<lparr>article = a\<lparr>article_category := cat', resolution_count := 0,
                         rating := None\<rparr>, score = 0.5, relevance = l\<rparr>))"
proof -
  have 1: "kb_search env t (Some c) = Inr results \<longrightarrow>
      search_knowledge_base env t (Some c)
        = enhance_search_results (filter (\<lambda>r. score r \<ge> 0.3) results) (Some c)"
    by (simp add: search_knowledge_base_def min_relevance_score_def)
  have 2: "score (enhance_result (Some c) r)
       = min (score r
               * (if article_category (article r) = category c then 1.2 else 1)
               * (if resolution_count (article r) > 0
                  then 1 + min (real_of_int (resolution_count (article r)) / 100) 0.2 else 1)
               * (case rating (article r) of
                    None \<Rightarrow> 1
                  | Some x \<Rightarrow> if x > 3.0 then 1 + (x - 3.0) * 0.1 else 1)) 1"
    unfolding enhance_result_def adjusted_score_eq by simp
  have 3: "mset (enhance_search_results rs (Some c)) = mset (map (enhance_result (Some c)) rs)"
    by (simp add: enhance_search_results_def sort_by_score_desc_mset)
  have 4: "sorted_wrt (\<lambda>x y. score x \<ge> score y) (enhance_search_results rs (Some c))"
    by (simp add: enhance_search_results_def sort_by_score_desc_sorted)
  from 1 2 3 4 boosted_beats_plain show ?thesis by blast
qed

theorem knowledge_rescoring_witness:
  "kb_search
     (routine_collaborators\<lparr>kb_search := \<lambda>t c. Inr
        [\<lparr>article = sample_article BILLING 0 None, score = 0.2, relevance = ''Low''\<rparr>,
         \<lparr>article = sample_article BILLING 0 None, score = 0.5, relevance = ''Medium''\<rparr>,
         \<lparr>article = sample_article ACCOUNT 200 (Some 5), score = 0.5, relevance = ''Medium''\<rparr>]\<rparr>)
     login_ticket (Some account_low)
     = Inr
        [\<lparr>article = sample_article BILLING 0 None, score = 0.2, relevance = ''Low''\<rparr>,
         \<lparr>article = sample_article BILLING 0 None, score = 0.5, relevance = ''Medium''\<rparr>,
         \<lparr>article = sample_article ACCOUNT 200 (Some 5), score = 0.5, relevance = ''Medium''\<rparr>]
   \<and> search_knowledge_base
     (routine_collaborators\<lparr>kb_search := \<lambda>t c. Inr
        [\<lparr>article = sample_article BILLING 0 None, score = 0.2, relevance = ''Low''\<rparr>,
         \<lparr>article = sample_article BILLING 0 None, score = 0.5, relevance = ''Medium''\<rparr>,
         \<lparr>article = sample_article ACCOUNT 200 (Some 5), score = 0.5, relevance = ''Medium''\<rparr>]\<rparr>)
     login_ticket (Some account_low)
     = [\<lparr>article = sample_article ACCOUNT 200 (Some 5), score = 0.864, relevance = ''Very High''\<rparr>,
        \<lparr>article = sample_article BILLING 0 None, score = 0.5, relevance = ''Medium''\<rparr>]
   \<and> BILLING \<noteq> category account_low
   \<and> score (enhance_result (Some account_low)
            \<lparr>article = (sample_article BILLING 7 None)
                \<lparr>article_category := category account_low, resolution_count := 200,
                 rating := Some 5\<rparr>, score = 0.5, relevance = ''Medium''\<rparr>)
       > score (enhance_result (Some account_low)
            \<lparr>article = (sample_article BILLING 7 None)
                \<lparr>article_category := BILLING, resolution_count := 0,
                 rating := None\<rparr>, score = 0.5, relevance = ''Medium''\<rparr>)"
proof -
  let ?rs = "[\<lparr>article = sample_article BILLING 0 None, score = 0.2, relevance = ''Low''\<rparr>,
         \<lparr>article = sample_article BILLING 0 None, score = 0.5, relevance = ''Medium''\<rparr>,
         \<lparr>article = sample_article ACCOUNT 200 (Some 5), score = 0.5, relevance = ''Medium''\<rparr>]"
  let ?env = "routine_collaborators\<lparr>kb_search := \<lambda>t c. Inr ?rs\<rparr>"
  have h1: "kb_search ?env login_ticket (Some account_low) = Inr ?rs" by simp
  have h2: "BILLING \<noteq> category account_low" by (simp add: account_low_def)
  have e: "enhance_search_results (filter (\<lambda>r. score r \<ge> 0.3) ?rs) (Some account_low)
     = [\<lparr>article = sample_article ACCOUNT 200 (Some 5), score = 0.864, relevance = ''Very High''\<rparr>,
        \<lparr>article = sample_article BILLING 0 None, score = 0.5, relevance = ''Medium''\<rparr>]"
    by (simp add: enhance_search_results_def sort_by_score_desc_def enhance_result_def
          adjusted_score_eq sample_article_def account_low_def calculate_enhanced_relevance_def)
  show ?thesis
    using knowledge_rescoring
            [where env = ?env and t = login_ticket and c = account_low and results = ?rs
               and cat' = BILLING and a = "sample_article BILLING 7 None" and l = "''Medium''"]
          h1 h2 e
    by simp
qed

section \<open>The response post-processor\<close>

lemma signature_guard_misses_own_block:
  "\<not> list_ex (endswith (r @ ''\<newline>\<newline>Best regards,\<newline>Customer Support Team''))
        [''Best regards'', ''Sincerely'', ''Thank you'']"
  by (simp add: endswith_def)

text \<open>
  Claim C5. Post-processing the answer \<open>We have reset your password.\<close> for a ticket with
  an identifier and a low priority gives a response with one header, one closing phrase and
  one signature block; post-processing that response again appends a second signature
  block, because the test before the signature looks for a text that ends in
  \<open>Best regards\<close>, \<open>Sincerely\<close> or \<open>Thank you\<close>, and the block that the function appends
  ends in \<open>Customer Support Team\<close>. So the post-processor is not idempotent.
\<close>

theorem post_process_twice_duplicates_signature:
  "post_process_response routine_collaborators ''We have reset your password.'' login_ticket
      account_low
     = Inr ''Subject: Re: Login\<newline>\<newline>Dear Valued Customer,\<newline>\<newline>Thank you for contacting us. We have reset your password.\<newline>\<newline>Best regards,\<newline>Customer Support Team''
   \<and> post_process_response routine_collaborators
        ''Subject: Re: Login\<newline>\<newline>Dear Valued Customer,\<newline>\<newline>Thank you for contacting us. We have reset your password.\<newline>\<newline>Best regards,\<newline>Customer Support Team''
        login_ticket account_low
     = Inr ''Subject: Re: Login\<newline>\<newline>Dear Valued Customer,\<newline>\<newline>Thank you for contacting us. We have reset your password.\<newline>\<newline>Best regards,\<newline>Customer Support Team\<newline>\<newline>Best regards,\<newline>Customer Support Team''"
proof -
  have first_pass:
    "post_process_response routine_collaborators ''We have reset your password.'' login_ticket
        account_low
       = Inr ''Subject: Re: Login\<newline>\<newline>Dear Valued Customer,\<newline>\<newline>Thank you for contacting us. We have reset your password.\<newline>\<newline>Best regards,\<newline>Customer Support Team''"
    by code_simp
  have second_pass:
    "post_process_response routine_collaborators
        ''Subject: Re: Login\<newline>\<newline>Dear Valued Customer,\<newline>\<newline>Thank you for contacting us. We have reset your password.\<newline>\<newline>Best regards,\<newline>Customer Support Team''
        login_ticket account_low
       = Inr ''Subject: Re: Login\<newline>\<newline>Dear Valued Customer,\<newline>\<newline>Thank you for contacting us. We have reset your password.\<newline>\<newline>Best regards,\<newline>Customer Support Team\<newline>\<newline>Best regards,\<newline>Customer Support Team''"
    by code_simp
  from first_pass second_pass show ?thesis by (rule conjI)
qed

section \<open>The workflow\<close>

lemma classify_node_ticket: "st_ticket (classify_node env s) = st_ticket s"
  by (simp add: classify_node_def classify_node_catch_def Let_def split: sum.splits)

lemma search_knowledge_node_ticket: "st_ticket (search_knowledge_node env s) = st_ticket s"
  by (simp add: search_knowledge_node_def search_knowledge_node_catch_def Let_def
        split: sum.splits)

lemma check_escalation_node_ticket: "st_ticket (check_escalation_node env s) = st_ticket s"
  by (simp add: check_escalation_node_def check_escalation_node_catch_def Let_def
        split: sum.splits)

lemma generate_resolution_node_ticket: "st_ticket (generate_resolution_node env s) = st_ticket s"
  by (simp add: generate_resolution_node_def generate_resolution_node_catch_def Let_def
        split: sum.splits)

lemma escalate_ticket_node_ticket: "st_ticket (escalate_ticket_node env s) = st_ticket s"
  by (simp add: escalate_ticket_node_def escalate_ticket_node_catch_def Let_def
        split: sum.splits)

lemma finalize_node_facts:
  "st_ticket (finalize_node s) = st_ticket s
   \<and> st_workflow_status (finalize_node s) = ''completed''
   \<and> st_error_messages (finalize_node s) = st_error_messages s
   \<and> total_errors (st_metadata (finalize_node s)) = Some (length (st_error_messages s))"
  by (simp add: finalize_node_def)

lemma workflow_ainvoke_facts:
  "st_ticket (workflow_ainvoke env s) = st_ticket s
   \<and> st_workflow_status (workflow_ainvoke env s) = ''completed''
   \<and> total_errors (st_metadata (workflow_ainvoke env s))
       = Some (length (st_error_messages (workflow_ainvoke env s)))"
  by (simp add: workflow_ainvoke_def Let_def finalize_node_facts classify_node_ticket
        search_knowledge_node_ticket check_escalation_node_ticket
        generate_resolution_node_ticket escalate_ticket_node_ticket)

lemma process_ticket_final:
  "process_ticket env ticket = FinalState (workflow_ainvoke env (initial_state ticket))"
  by (simp add: process_ticket_def process_ticket_catch_def)

lemma process_ticket_ticket: "result_ticket (process_ticket env ticket) = ticket"
  by (simp add: process_ticket_final workflow_ainvoke_facts initial_state_def)




section \<open>The batch driver\<close>

lemma collect_results_length: "length (collect_results tickets results) = length results"
  by (simp add: collect_results_def)

lemma gather_runs_length: "length (gather_runs run tickets) = length tickets"
  by (simp add: gather_runs_def)

lemma process_batch_with_nth:
  assumes "i < length tickets"
  shows "process_batch_with run tickets ! i
     = (case run i (tickets ! i) of
          Inl e \<Rightarrow> batch_error (tickets ! i) e
        | Inr r \<Rightarrow> r)"
  using assms
  by (simp add: process_batch_with_def collect_results_def gather_runs_def nth_enumerate_eq)

text \<open>
  Claim C6. \<open>process_batch\<close> returns one result per ticket, in the order of the
  tickets: the result at position \<open>i\<close> is the outcome of the run of ticket \<open>i\<close>, and it
  carries that ticket. A run that ends in an exception is replaced at its position by a
  failed result with the exception's text (status \<open>failed\<close>, agent type \<open>batch_error\<close>);
  the other positions are not affected. The function returns a list for every input.
\<close>

theorem process_batch_one_result_per_ticket:
  "length (process_batch_with run tickets) = length tickets
   \<and> (\<forall>i < length tickets.
        process_batch_with run tickets ! i
          = (case run i (tickets ! i) of
               Inl e \<Rightarrow> batch_error (tickets ! i) e
             | Inr r \<Rightarrow> r))
   \<and> length (process_batch envs tickets) = length tickets
   \<and> (\<forall>i < length tickets.
        process_batch envs tickets ! i = process_ticket (envs i) (tickets ! i))
   \<and> map result_ticket (process_batch envs tickets) = tickets
   \<and> result_ticket (batch_error ticket e) = ticket
   \<and> result_status (batch_error ticket e) = ''failed''
   \<and> result_errors (batch_error ticket e) = [e]
   \<and> (\<exists>x. batch_error ticket e = ErrorState x
          \<and> er_agent_type (es_resolution x) = ''batch_error'')"
proof -
  have len: "\<And>run. length (process_batch_with run tickets) = length tickets"
    by (simp add: process_batch_with_def collect_results_length gather_runs_length)
  have nth_b: "\<forall>i < length tickets.
        process_batch envs tickets ! i = process_ticket (envs i) (tickets ! i)"
    by (simp add: process_batch_def process_batch_with_nth)
  have lenb: "length (process_batch envs tickets) = length tickets"
    by (simp add: process_batch_def len)
  have tk: "map result_ticket (process_batch envs tickets) = tickets"
    by (rule nth_equalityI) (simp_all add: lenb nth_b process_ticket_ticket)
  show ?thesis
    using len [of run] nth_b lenb tk
    by (simp add: process_batch_with_nth batch_error_def)
qed

theorem process_batch_one_result_per_ticket_witness:
  "(0::nat) < length [login_ticket, blank_name_ticket]
   \<and> (1::nat) < length [login_ticket, blank_name_ticket]
   \<and> length (process_batch_with
        (\<lambda>i ticket. if i = 0 then Inl ''boom''
                     else Inr (process_ticket failing_collaborators ticket))
        [login_ticket, blank_name_ticket]) = 2
   \<and> process_batch_with
        (\<lambda>i ticket. if i = 0 then Inl ''boom''
                     else Inr (process_ticket failing_collaborators ticket))
        [login_ticket, blank_name_ticket] ! 0 = batch_error login_ticket ''boom''
   \<and> process_batch_with
        (\<lambda>i ticket. if i = 0 then Inl ''boom''
                     else Inr (process_ticket failing_collaborators ticket))
        [login_ticket, blank_name_ticket] ! 1
       = process_ticket failing_collaborators blank_name_ticket
   \<and> map result_ticket (process_batch (\<lambda>i. failing_collaborators)
        [login_ticket, blank_name_ticket]) = [login_ticket, blank_name_ticket]"
proof -
  let ?run = "\<lambda>i ticket. if i = (0::nat) then Inl ''boom''
                     else Inr (process_ticket failing_collaborators ticket)"
  let ?ts = "[login_ticket, blank_name_ticket]"
  note t = process_batch_one_result_per_ticket
             [where run = ?run and tickets = ?ts and envs = "\<lambda>i. failing_collaborators"
                and ticket = login_ticket and e = "''boom''"]
  have h0: "(0::nat) < length ?ts" and h1: "(1::nat) < length ?ts" by simp_all
  from t have a: "\<forall>i < length ?ts.
        process_batch_with ?run ?ts ! i
          = (case ?run i (?ts ! i) of Inl e \<Rightarrow> batch_error (?ts ! i) e | Inr r \<Rightarrow> r)"
    by blast
  from a h0 have r0: "process_batch_with ?run ?ts ! 0 = batch_error login_ticket ''boom''"
    by simp
  from a h1 have r1: "process_batch_with ?run ?ts ! 1
       = process_ticket failing_collaborators blank_name_ticket"
    by simp
  from t have l: "length (process_batch_with ?run ?ts) = 2" by simp
  from t have m: "map result_ticket (process_batch (\<lambda>i. failing_collaborators) ?ts) = ?ts"
    by blast
  from h0 h1 l r0 r1 m show ?thesis by blast
qed

end
